theory Spec2Isabelle
  imports Main "HOL-Library.Word"
begin

section \<open>The driving state of the convoy leader (DrivingState.cpp)\<close>

text \<open>
  A shallow embedding of \<^verbatim>\<open>DrivingState::entry\<close>, \<^verbatim>\<open>process\<close>, \<^verbatim>\<open>exit\<close>,
  \<^verbatim>\<open>processOnTrack\<close>, \<^verbatim>\<open>processTrackLost\<close>, \<^verbatim>\<open>isStartEndLineDetected\<close>,
  \<^verbatim>\<open>isTrackGapDetected\<close> and \<^verbatim>\<open>adaptDriving\<close>.

  The plain members of the class are the fields of a record that every method takes
  and returns. The collaborators (line sensors, differential drive, odometry, sound,
  LED, state machine) and the member objects whose classes live in other files
  (timers, moving average, PID controller) are seen through their interface only: what
  a query on them returns in a tick is an input of that tick, and every command
  sent to them is appended, in program order, to the list of events the method returns.

  Integers have the widths of the source: \<^verbatim>\<open>int16_t\<close> is \<^typ>\<open>16 word\<close> read
  with \<^const>\<open>sint\<close>, \<^verbatim>\<open>uint16_t\<close>, \<^verbatim>\<open>uint8_t\<close> and \<^verbatim>\<open>uint32_t\<close> are words read
  with \<^const>\<open>uint\<close>. Arithmetic on them is done in \<^verbatim>\<open>int\<close> after the integer
  promotions (32 bits, as on the simulation targets, where none of the expressions
  below can overflow), and the result is narrowed to the type of the variable it is
  stored in, which keeps the low 16 bits.
\<close>

subsection \<open>Data\<close>

type_synonym int16_t = "16 word"
type_synonym uint16_t = "16 word"
type_synonym uint8_t = "8 word"
type_synonym uint32_t = "32 word"

datatype LineStatus =
    LINE_STATUS_FIND_START_LINE
  | LINE_STATUS_START_LINE_DETECTED
  | LINE_STATUS_FIND_END_LINE

text \<open>
  \<open>TRACK_STATUS_OTHER\<close> stands for any value of the member that is none of the three
  enumerators; it is what the \<^verbatim>\<open>default:\<close> branch of the switch in \<^verbatim>\<open>process\<close> handles.
\<close>

datatype TrackStatus =
    TRACK_STATUS_ON_TRACK
  | TRACK_STATUS_LOST
  | TRACK_STATUS_FINISHED
  | TRACK_STATUS_OTHER

record DrivingState =
  m_topSpeed :: int16_t
  m_lineStatus :: LineStatus
  m_trackStatus :: TrackStatus
  m_startEndLineDebounce :: uint8_t

text \<open>
  The constants of DrivingState.h, which is not among the sources, are parameters.
\<close>

record Constants =
  OBSERVATION_DURATION :: uint32_t
  PID_PROCESS_PERIOD :: uint32_t
  MAX_DISTANCE :: uint32_t

record ParameterSet =
  topSpeed :: int16_t
  kPNumerator :: int16_t
  kPDenominator :: int16_t
  kINumerator :: int16_t
  kIDenominator :: int16_t
  kDNumerator :: int16_t
  kDDenominator :: int16_t

text \<open>What the line sensor interface answers during one tick.\<close>

record ILineSensors =
  readLine :: int16_t
  getSensorValues :: "uint16_t list option"
  getNumLineSensors :: uint8_t
  getSensorValueMax :: int16_t

text \<open>
  What the other objects answer during one tick. Each of these queries is made at most
  once in a call of \<^verbatim>\<open>process\<close>.
\<close>

record Tick =
  lineSensors :: ILineSensors
  posMovAvgResult :: int16_t
  observationTimerIsTimeout :: bool
  pidProcessTimeIsTimeout :: bool
  mileageCenter :: uint32_t
  pidCtrlOutput :: int16_t
  lapTimeCurrentDuration :: uint32_t

text \<open>The commands sent to other objects.\<close>

datatype event =
    ObservationTimerStart uint32_t
  | ObservationTimerStop
  | PidProcessTimeStart uint32_t
  | LapTimeStart uint32_t
  | PosMovAvgClear
  | PosMovAvgWrite int16_t
  | PidClear
  | PidSetPFactor int16_t int16_t
  | PidSetIFactor int16_t int16_t
  | PidSetDFactor int16_t int16_t
  | PidSetSampleTime uint32_t
  | PidSetLimits int16_t int16_t
  | PidSetDerivativeOnMeasurement bool
  | PidResync
  | PidCalculate int16_t int16_t
  | SetLinearSpeed int16_t int16_t
  | PlayAlarm
  | PlayBeep
  | ClearMileage
  | YellowLedEnable bool
  | ReadyStateSetLapTime uint32_t
  | SetStateReady

subsection \<open>Integer helpers\<close>

definition narrow16 :: "int \<Rightarrow> 16 word" where
  "narrow16 i = word_of_int i"

text \<open>
  Arduino's macro
  \<^verbatim>\<open>#define constrain(amt,low,high) ((amt)<(low)?(low):((amt)>(high)?(high):(amt)))\<close>
  on \<^verbatim>\<open>int16_t\<close> operands.
\<close>

definition constrain :: "int16_t \<Rightarrow> int16_t \<Rightarrow> int16_t \<Rightarrow> int16_t" where
  "constrain amt low high =
     (if sint amt < sint low then low
      else if sint amt > sint high then high
      else amt)"

subsection \<open>Methods\<close>

definition entry :: "ParameterSet \<Rightarrow> int16_t \<Rightarrow> Constants \<Rightarrow> DrivingState \<Rightarrow> DrivingState \<times> event list" where
  "entry parSet maxSpeed K s =
     (s\<lparr>m_lineStatus := LINE_STATUS_FIND_START_LINE,
        m_trackStatus := TRACK_STATUS_ON_TRACK,
        m_topSpeed := topSpeed parSet\<rparr>,
      [ObservationTimerStart (OBSERVATION_DURATION K),
       PidProcessTimeStart 0,
       PosMovAvgClear,
       PidClear,
       PidSetPFactor (kPNumerator parSet) (kPDenominator parSet),
       PidSetIFactor (kINumerator parSet) (kIDenominator parSet),
       PidSetDFactor (kDNumerator parSet) (kDDenominator parSet),
       PidSetSampleTime (PID_PROCESS_PERIOD K),
       PidSetLimits (narrow16 (- sint maxSpeed)) maxSpeed,
       PidSetDerivativeOnMeasurement True])"

definition exit :: "DrivingState \<Rightarrow> DrivingState \<times> event list" where
  "exit s = (s, [ObservationTimerStop, YellowLedEnable False])"

definition isStartEndLineDetected :: "uint16_t list \<Rightarrow> DrivingState \<Rightarrow> bool \<times> DrivingState" where
  "isStartEndLineDetected lineSensorValues s =
     (let leftSensor = lineSensorValues ! 0;
          middleSensor = (narrow16 ((uint (lineSensorValues ! 1) + uint (lineSensorValues ! 2)
                                     + uint (lineSensorValues ! 3)) div 3) :: uint16_t);
          rightSensor = lineSensorValues ! 4;
          DEBOUNCE_CNT = (3 :: uint8_t);
          LINE_SENSOR_OFF_TRACK_VALUE = (200 :: uint16_t)
      in if LINE_SENSOR_OFF_TRACK_VALUE \<le> leftSensor \<and> LINE_SENSOR_OFF_TRACK_VALUE \<le> middleSensor
            \<and> LINE_SENSOR_OFF_TRACK_VALUE \<le> rightSensor
         then (let c = (if DEBOUNCE_CNT > m_startEndLineDebounce s
                        then m_startEndLineDebounce s + 1
                        else m_startEndLineDebounce s)
               in (DEBOUNCE_CNT \<le> c, s\<lparr>m_startEndLineDebounce := c\<rparr>))
         else (False, s\<lparr>m_startEndLineDebounce := 0\<rparr>))"

definition isTrackGapDetected :: "ILineSensors \<Rightarrow> int16_t \<Rightarrow> bool" where
  "isTrackGapDetected ls position =
     (let POS_MIN = (0 :: int16_t);
          POS_MAX = narrow16 ((uint (getNumLineSensors ls) - 1) * 1000)
      in sint POS_MIN \<ge> sint position \<or> sint POS_MAX \<le> sint position)"

definition adaptDriving :: "Tick \<Rightarrow> int16_t \<Rightarrow> DrivingState \<Rightarrow> DrivingState \<times> event list" where
  "adaptDriving t position s =
     (let setpoint = narrow16 (sint (getSensorValueMax (lineSensors t)) * 2);
          speedDifference = pidCtrlOutput t;
          leftSpeed = narrow16 (sint (m_topSpeed s) - sint speedDifference);
          rightSpeed = narrow16 (sint (m_topSpeed s) + sint speedDifference);
          leftSpeed' = constrain leftSpeed 0 (m_topSpeed s);
          rightSpeed' = constrain rightSpeed 0 (m_topSpeed s)
      in (s, [PidCalculate setpoint position, SetLinearSpeed leftSpeed' rightSpeed']))"

definition processOnTrack ::
  "Constants \<Rightarrow> Tick \<Rightarrow> int16_t \<Rightarrow> uint16_t list option \<Rightarrow> DrivingState \<Rightarrow> DrivingState \<times> event list" where
  "processOnTrack K t position lineSensorValues s =
     (case lineSensorValues of
        None \<Rightarrow> (s, [])
      | Some vs \<Rightarrow>
          if isTrackGapDetected (lineSensors t) (posMovAvgResult t)
          then (s\<lparr>m_trackStatus := TRACK_STATUS_LOST\<rparr>, [ClearMileage, YellowLedEnable True])
          else
            (let (isDetected, s1) = isStartEndLineDetected vs s;
                 (s2, ev2) =
                   (if isDetected then
                      (if m_lineStatus s1 = LINE_STATUS_FIND_START_LINE
                       then (s1\<lparr>m_lineStatus := LINE_STATUS_START_LINE_DETECTED\<rparr>,
                             [PlayBeep, LapTimeStart 0])
                       else if m_lineStatus s1 = LINE_STATUS_FIND_END_LINE
                       then (s1\<lparr>m_trackStatus := TRACK_STATUS_FINISHED\<rparr>,
                             [SetLinearSpeed 0 0, PlayBeep,
                              ReadyStateSetLapTime (lapTimeCurrentDuration t)])
                       else (s1, []))
                    else if m_lineStatus s1 = LINE_STATUS_START_LINE_DETECTED
                    then (s1\<lparr>m_lineStatus := LINE_STATUS_FIND_END_LINE\<rparr>, [])
                    else (s1, []));
                 (s3, ev3) =
                   (if m_trackStatus s2 \<noteq> TRACK_STATUS_FINISHED \<and> pidProcessTimeIsTimeout t
                    then (let (s', ev) = adaptDriving t position s2
                          in (s', ev @ [PidProcessTimeStart (PID_PROCESS_PERIOD K)]))
                    else (s2, []))
             in (s3, ev2 @ ev3)))"

definition processTrackLost ::
  "Constants \<Rightarrow> Tick \<Rightarrow> int16_t \<Rightarrow> uint16_t list option \<Rightarrow> DrivingState \<Rightarrow> DrivingState \<times> event list" where
  "processTrackLost K t position lineSensorValues s =
     (case lineSensorValues of
        None \<Rightarrow> (s, [])
      | Some vs \<Rightarrow>
          if \<not> isTrackGapDetected (lineSensors t) position
          then (s\<lparr>m_trackStatus := TRACK_STATUS_ON_TRACK\<rparr>, [PidResync, YellowLedEnable False])
          else if MAX_DISTANCE K < mileageCenter t
          then (s\<lparr>m_trackStatus := TRACK_STATUS_FINISHED\<rparr>, [SetLinearSpeed 0 0, PlayAlarm])
          else (s, [SetLinearSpeed (m_topSpeed s) (m_topSpeed s)]))"

text \<open>The switch of \<^verbatim>\<open>process\<close> on the track status.\<close>

definition dispatch :: "Constants \<Rightarrow> Tick \<Rightarrow> int16_t \<Rightarrow> DrivingState \<Rightarrow> DrivingState \<times> event list" where
  "dispatch K t position s =
     (case m_trackStatus s of
        TRACK_STATUS_ON_TRACK \<Rightarrow> processOnTrack K t position (getSensorValues (lineSensors t)) s
      | TRACK_STATUS_LOST \<Rightarrow> processTrackLost K t position (getSensorValues (lineSensors t)) s
      | TRACK_STATUS_FINISHED \<Rightarrow> (s, [SetStateReady])
      | TRACK_STATUS_OTHER \<Rightarrow> (s, [SetLinearSpeed 0 0, PlayAlarm, SetStateReady]))"

text \<open>The check of the observation timer that ends \<^verbatim>\<open>process\<close>.\<close>

definition observationCheck :: "Tick \<Rightarrow> DrivingState \<Rightarrow> DrivingState \<times> event list" where
  "observationCheck t s =
     (if m_trackStatus s \<noteq> TRACK_STATUS_FINISHED \<and> observationTimerIsTimeout t
      then (s\<lparr>m_trackStatus := TRACK_STATUS_FINISHED\<rparr>, [SetLinearSpeed 0 0, PlayAlarm])
      else (s, []))"

definition process :: "Constants \<Rightarrow> Tick \<Rightarrow> DrivingState \<Rightarrow> DrivingState \<times> event list" where
  "process K t s =
     (let position = readLine (lineSensors t);
          (s1, ev1) = dispatch K t position s;
          (s2, ev2) = observationCheck t s1
      in (s2, [PosMovAvgWrite position] @ ev1 @ ev2))"

text \<open>A sequence of ticks: the state is threaded through, the events are concatenated.\<close>

fun processAll :: "Constants \<Rightarrow> Tick list \<Rightarrow> DrivingState \<Rightarrow> DrivingState \<times> event list" where
  "processAll K [] s = (s, [])"
| "processAll K (t # ts) s =
     (let (s1, ev1) = process K t s;
          (s2, ev2) = processAll K ts s1
      in (s2, ev1 @ ev2))"

subsection \<open>Reading a list of events\<close>

text \<open>
  The speeds the differential drive holds after a list of events, when it held \<open>d\<close>
  before: \<^verbatim>\<open>setLinearSpeed\<close> overwrites the pair, nothing else touches it.
\<close>

fun commandedSpeeds :: "event list \<Rightarrow> int16_t \<times> int16_t \<Rightarrow> int16_t \<times> int16_t" where
  "commandedSpeeds [] d = d"
| "commandedSpeeds (SetLinearSpeed l r # es) d = commandedSpeeds es (l, r)"
| "commandedSpeeds (e # es) d = commandedSpeeds es d"

fun isDriveCommand :: "event \<Rightarrow> bool" where
  "isDriveCommand (SetLinearSpeed l r) = True"
| "isDriveCommand e = False"

fun isPidCommand :: "event \<Rightarrow> bool" where
  "isPidCommand PidClear = True"
| "isPidCommand (PidSetPFactor n d) = True"
| "isPidCommand (PidSetIFactor n d) = True"
| "isPidCommand (PidSetDFactor n d) = True"
| "isPidCommand (PidSetSampleTime p) = True"
| "isPidCommand (PidSetLimits lo hi) = True"
| "isPidCommand (PidSetDerivativeOnMeasurement b) = True"
| "isPidCommand PidResync = True"
| "isPidCommand (PidCalculate sp pv) = True"
| "isPidCommand e = False"

definition lineRank :: "LineStatus \<Rightarrow> nat" where
  "lineRank l = (case l of
     LINE_STATUS_FIND_START_LINE \<Rightarrow> 0
   | LINE_STATUS_START_LINE_DETECTED \<Rightarrow> 1
   | LINE_STATUS_FIND_END_LINE \<Rightarrow> 2)"

text \<open>The start/end line detector run over the sensor arrays of successive ticks.\<close>

fun detectAll :: "uint16_t list list \<Rightarrow> DrivingState \<Rightarrow> bool list \<times> DrivingState" where
  "detectAll [] s = ([], s)"
| "detectAll (vs # rest) s =
     (let (d, s1) = isStartEndLineDetected vs s;
          (ds, s2) = detectAll rest s1
      in (d # ds, s2))"

subsection \<open>The words of the specification\<close>

text \<open>The clamp of the steering computation, on unbounded integers.\<close>

definition clamp :: "int \<Rightarrow> int \<Rightarrow> int \<Rightarrow> int" where
  "clamp x lo hi = max lo (min hi x)"

text \<open>
  A crossing is present when the two outermost channels and the average of the interior
  channels are at or above the threshold of 200.
\<close>

definition crossingPresent :: "uint16_t list \<Rightarrow> bool" where
  "crossingPresent vs =
     (let interior = butlast (tl vs)
      in 200 \<le> uint (hd vs) \<and> 200 \<le> uint (last vs)
         \<and> 200 \<le> sum_list (map uint interior) div int (length interior))"

subsection \<open>Example inputs\<close>

definition exampleConstants :: Constants where
  "exampleConstants = \<lparr>OBSERVATION_DURATION = 180000, PID_PROCESS_PERIOD = 10, MAX_DISTANCE = 200\<rparr>"

definition exampleSensors :: "int16_t \<Rightarrow> uint16_t list option \<Rightarrow> ILineSensors" where
  "exampleSensors position values =
     \<lparr>readLine = position, getSensorValues = values, getNumLineSensors = 5, getSensorValueMax = 1000\<rparr>"

definition exampleTick :: "ILineSensors \<Rightarrow> bool \<Rightarrow> int16_t \<Rightarrow> Tick" where
  "exampleTick ls obsTimeout pidOut =
     \<lparr>lineSensors = ls, posMovAvgResult = readLine ls, observationTimerIsTimeout = obsTimeout,
      pidProcessTimeIsTimeout = True, mileageCenter = 50, pidCtrlOutput = pidOut,
      lapTimeCurrentDuration = 12000\<rparr>"

definition exampleState :: "TrackStatus \<Rightarrow> uint8_t \<Rightarrow> DrivingState" where
  "exampleState track debounce =
     \<lparr>m_topSpeed = 2000, m_lineStatus = LINE_STATUS_FIND_START_LINE, m_trackStatus = track,
      m_startEndLineDebounce = debounce\<rparr>"

definition exampleParameterSet :: ParameterSet where
  "exampleParameterSet =
     \<lparr>topSpeed = 2000, kPNumerator = 3, kPDenominator = 4, kINumerator = 1, kIDenominator = 100,
      kDNumerator = 40, kDDenominator = 1\<rparr>"

definition darkFrame :: "uint16_t list" where
  "darkFrame = [0, 0, 1000, 0, 0]"

definition brightFrame :: "uint16_t list" where
  "brightFrame = [1000, 1000, 1000, 1000, 1000]"

text \<open>An array of seven channels, bright on channels 0 to 4 and dark on the last two.\<close>

definition wideFrame :: "uint16_t list" where
  "wideFrame = [1000, 1000, 1000, 1000, 1000, 0, 0]"

text \<open>
  The sensor readings of a lap: the start line is crossed in the first three ticks, left
  in the fourth, and the end line is crossed in the last three.
\<close>

definition lapTicks :: "Tick list" where
  "lapTicks = map (\<lambda>vs. exampleTick (exampleSensors 2000 (Some vs)) False 0)
     [brightFrame, brightFrame, brightFrame, darkFrame, brightFrame, brightFrame, brightFrame]"

text \<open>
  The sensor readings of a start: a crossing is seen in the first tick, lost for one
  tick, and seen again for three ticks.
\<close>

definition restartTicks :: "Tick list" where
  "restartTicks = map (\<lambda>vs. exampleTick (exampleSensors 2000 (Some vs)) False 0)
     [brightFrame, darkFrame, brightFrame, brightFrame, brightFrame]"

section \<open>Properties\<close>

lemma sint_narrow16: "- 32768 \<le> i \<Longrightarrow> i \<le> 32767 \<Longrightarrow> sint (narrow16 i) = i"
  unfolding narrow16_def by (simp add: sint_sbintrunc' signed_take_bit_int_eq_self)

lemma sint16_range: "- 32768 \<le> sint (w :: 16 word) \<and> sint w \<le> 32767"
  using sint_ge [of w] sint_lt [of w] by simp

lemmas method_defs =
  process_def dispatch_def observationCheck_def processOnTrack_def processTrackLost_def
  adaptDriving_def isTrackGapDetected_def isStartEndLineDetected_def
  constrain_def narrow16_def

lemmas example_defs =
  exampleConstants_def exampleSensors_def exampleTick_def exampleState_def
  darkFrame_def brightFrame_def

subsection \<open>The parts of a tick\<close>

lemma snd_process:
  "snd (process K t s) =
     PosMovAvgWrite (readLine (lineSensors t)) # snd (dispatch K t (readLine (lineSensors t)) s)
       @ snd (observationCheck t (fst (dispatch K t (readLine (lineSensors t)) s)))"
  by (simp add: process_def Let_def split: prod.splits)

lemma fst_process:
  "fst (process K t s) = fst (observationCheck t (fst (dispatch K t (readLine (lineSensors t)) s)))"
  by (simp add: process_def Let_def split: prod.splits)

lemma isStartEndLineDetected_fields:
  "m_lineStatus (snd (isStartEndLineDetected vs s)) = m_lineStatus s"
  "m_trackStatus (snd (isStartEndLineDetected vs s)) = m_trackStatus s"
  "m_topSpeed (snd (isStartEndLineDetected vs s)) = m_topSpeed s"
  by (simp_all add: isStartEndLineDetected_def Let_def)

lemma fst_adaptDriving: "fst (adaptDriving t position s) = s"
  by (simp add: adaptDriving_def Let_def)

subsection \<open>The gap test\<close>

text \<open>
  Claim C3, as the code has it. \<^verbatim>\<open>POS_MAX\<close> is an \<^verbatim>\<open>int16_t\<close>: for up to 33 sensors
  \<open>(numSensors - 1) * 1000\<close> fits, and then the gap test is true exactly when the position
  is at most 0 or at least that maximum; it is true at 0 and at the maximum and false at
  half the maximum. The test is a function of the sensor count and the position alone:
  it reads and writes no member, so nothing is debounced.
\<close>

theorem gap_test_iff:
  assumes "2 \<le> uint (getNumLineSensors ls)" and "uint (getNumLineSensors ls) \<le> 33"
  shows "(isTrackGapDetected ls p \<longleftrightarrow>
            sint p \<le> 0 \<or> (uint (getNumLineSensors ls) - 1) * 1000 \<le> sint p)
       \<and> isTrackGapDetected ls 0
       \<and> isTrackGapDetected ls (narrow16 ((uint (getNumLineSensors ls) - 1) * 1000))
       \<and> \<not> isTrackGapDetected ls (narrow16 ((uint (getNumLineSensors ls) - 1) * 1000 div 2))"
proof -
  let ?m = "(uint (getNumLineSensors ls) - 1) * 1000"
  have m: "1000 \<le> ?m" "?m \<le> 32000" using assms by auto
  have sm: "sint (narrow16 ?m) = ?m" using m by (intro sint_narrow16) auto
  have sh: "sint (narrow16 (?m div 2)) = ?m div 2" using m by (intro sint_narrow16) auto
  have h: "0 < ?m div 2" "?m div 2 < ?m" using m by auto
  show ?thesis using sm sh h m unfolding isTrackGapDetected_def Let_def by auto
qed

theorem gap_test_iff_witness:
  "2 \<le> uint (getNumLineSensors (exampleSensors 2000 None))
   \<and> uint (getNumLineSensors (exampleSensors 2000 None)) \<le> 33
   \<and> isTrackGapDetected (exampleSensors 2000 None) 4000
   \<and> \<not> isTrackGapDetected (exampleSensors 2000 None) 2000"
  using gap_test_iff [of "exampleSensors 2000 None" 4000]
  by (simp add: exampleSensors_def narrow16_def)

text \<open>
  With 34 sensors the maximum 33000 does not fit \<^verbatim>\<open>POS_MAX\<close>, which becomes negative:
  the position 16500, half the maximum, is reported as a gap.
\<close>

theorem gap_test_34_sensors:
  "2 \<le> uint (getNumLineSensors (exampleSensors 16500 None\<lparr>getNumLineSensors := 34\<rparr>))
   \<and> isTrackGapDetected (exampleSensors 16500 None\<lparr>getNumLineSensors := 34\<rparr>) 16500
   \<and> \<not> (sint (16500 :: int16_t) \<le> 0 \<or> (uint (34 :: uint8_t) - 1) * 1000 \<le> sint (16500 :: int16_t))
   \<and> sint (16500 :: int16_t) = (uint (34 :: uint8_t) - 1) * 1000 div 2"
  by (simp add: isTrackGapDetected_def exampleSensors_def narrow16_def)

subsection \<open>The steering computation\<close>

lemma constrain_range:
  "0 \<le> sint hi \<Longrightarrow> 0 \<le> sint (constrain x 0 hi) \<and> sint (constrain x 0 hi) \<le> sint hi"
  by (auto simp: constrain_def)

lemma constrain_clamp:
  "0 \<le> sint hi \<Longrightarrow> sint (constrain x 0 hi) = clamp (sint x) 0 (sint hi)"
  by (auto simp: constrain_def clamp_def)

lemma commandedSpeeds_adaptDriving:
  "commandedSpeeds (snd (adaptDriving t position s)) d =
     (constrain (narrow16 (sint (m_topSpeed s) - sint (pidCtrlOutput t))) 0 (m_topSpeed s),
      constrain (narrow16 (sint (m_topSpeed s) + sint (pidCtrlOutput t))) 0 (m_topSpeed s))"
  by (simp add: adaptDriving_def Let_def)

text \<open>
  Whatever the drive held before, after \<^verbatim>\<open>adaptDriving\<close> it holds a pair of speeds that
  both lie between 0 and the top speed, for every top speed that is not negative and
  every output of the PID controller. The left speed is the clamp of
  \<open>topSpeed - differential\<close> as long as that difference fits an \<^verbatim>\<open>int16_t\<close>, and the right
  speed is the clamp of \<open>topSpeed + differential\<close> as long as that sum does.
\<close>

lemma adaptDriving_speeds:
  assumes "0 \<le> sint (m_topSpeed s)"
    and "commandedSpeeds (snd (adaptDriving t position s)) d = (leftSpeed, rightSpeed)"
  shows "0 \<le> sint leftSpeed \<and> sint leftSpeed \<le> sint (m_topSpeed s)
       \<and> 0 \<le> sint rightSpeed \<and> sint rightSpeed \<le> sint (m_topSpeed s)
       \<and> (sint (m_topSpeed s) - sint (pidCtrlOutput t) \<le> 32767 \<longrightarrow>
            sint leftSpeed = clamp (sint (m_topSpeed s) - sint (pidCtrlOutput t)) 0 (sint (m_topSpeed s)))
       \<and> (sint (m_topSpeed s) + sint (pidCtrlOutput t) \<le> 32767 \<longrightarrow>
            sint rightSpeed = clamp (sint (m_topSpeed s) + sint (pidCtrlOutput t)) 0 (sint (m_topSpeed s)))"
proof -
  let ?top = "m_topSpeed s" and ?d = "pidCtrlOutput t"
  have l: "leftSpeed = constrain (narrow16 (sint ?top - sint ?d)) 0 ?top"
    and r: "rightSpeed = constrain (narrow16 (sint ?top + sint ?d)) 0 ?top"
    using assms(2) by (simp_all add: commandedSpeeds_adaptDriving)
  have lo: "- 32768 \<le> sint ?top - sint ?d" "- 32768 \<le> sint ?top + sint ?d"
    using assms(1) sint16_range [of ?d] by auto
  have "sint ?top - sint ?d \<le> 32767 \<Longrightarrow> sint (narrow16 (sint ?top - sint ?d)) = sint ?top - sint ?d"
    using lo by (intro sint_narrow16) auto
  moreover have "sint ?top + sint ?d \<le> 32767 \<Longrightarrow> sint (narrow16 (sint ?top + sint ?d)) = sint ?top + sint ?d"
    using lo by (intro sint_narrow16) auto
  ultimately show ?thesis
    using constrain_range [OF assms(1)] constrain_clamp [OF assms(1)] l r by simp
qed

text \<open>
  Claim C5 at an input where the code fails it. \<^verbatim>\<open>leftSpeed\<close> and \<^verbatim>\<open>rightSpeed\<close> are
  \<^verbatim>\<open>int16_t\<close>: the difference and the sum are narrowed before \<^verbatim>\<open>constrain\<close> sees them.
  With a top speed of 30000 and a differential of -10000 the difference 40000 is stored
  as -25536 and the left wheel is commanded to 0, where the clamp of 40000 is 30000; the
  right wheel is commanded to 20000. Neither wheel turns at the top speed, against the
  comment in \<^verbatim>\<open>adaptDriving\<close> that one motor always does.
\<close>

theorem adaptDriving_overflow:
  "0 \<le> sint (m_topSpeed (exampleState TRACK_STATUS_ON_TRACK 0\<lparr>m_topSpeed := 30000\<rparr>))
   \<and> commandedSpeeds (snd (adaptDriving (exampleTick (exampleSensors 2000 (Some darkFrame)) False (- 10000)) 2000
        (exampleState TRACK_STATUS_ON_TRACK 0\<lparr>m_topSpeed := 30000\<rparr>))) (0, 0) = (0, 20000)
   \<and> clamp (sint (30000 :: int16_t) - sint (- 10000 :: int16_t)) 0 (sint (30000 :: int16_t)) = 30000"
  using adaptDriving_speeds [of "exampleState TRACK_STATUS_ON_TRACK 0\<lparr>m_topSpeed := 30000\<rparr>"
      "exampleTick (exampleSensors 2000 (Some darkFrame)) False (- 10000)" 2000 "(0, 0)" 0 20000]
  by (simp add: method_defs example_defs clamp_def)

lemma calc_processOnTrack:
  "PidCalculate sp pv \<in> set (snd (processOnTrack K t position vals s)) \<Longrightarrow>
     sp = narrow16 (sint (getSensorValueMax (lineSensors t)) * 2) \<and> pv = position"
  by (auto simp: processOnTrack_def adaptDriving_def Let_def split: option.splits if_splits prod.splits)

lemma calc_processTrackLost:
  "PidCalculate sp pv \<notin> set (snd (processTrackLost K t position vals s))"
  by (auto simp: processTrackLost_def split: option.splits)

lemma calc_dispatch:
  "PidCalculate sp pv \<in> set (snd (dispatch K t position s)) \<Longrightarrow>
     sp = narrow16 (sint (getSensorValueMax (lineSensors t)) * 2) \<and> pv = position"
  using calc_processOnTrack [of sp pv K t position _ s] calc_processTrackLost [of sp pv K t position _ s]
  by (auto simp: dispatch_def split: TrackStatus.splits)

text \<open>
  Claim C6, as the code has it. Every call of the PID controller in a tick passes twice
  the maximum value of a sensor channel as the setpoint and the position read from the
  line sensors in that tick as the process variable. The setpoint is the midpoint
  \<open>(numSensors - 1) * 1000 / 2\<close> of the position range when twice the channel maximum
  equals that midpoint and the channel maximum is at most 16383, so that twice the
  maximum fits the \<^verbatim>\<open>int16_t\<close> setpoint; it is so for 5 sensors with a channel maximum of
  1000.
\<close>

theorem pid_setpoint:
  assumes "PidCalculate setpoint processValue \<in> set (snd (process K t s))"
  shows "setpoint = narrow16 (sint (getSensorValueMax (lineSensors t)) * 2)
       \<and> processValue = readLine (lineSensors t)
       \<and> (sint (getSensorValueMax (lineSensors t)) * 2
              = (uint (getNumLineSensors (lineSensors t)) - 1) * 1000 div 2
            \<longrightarrow> sint (getSensorValueMax (lineSensors t)) \<le> 16383
            \<longrightarrow> sint setpoint = (uint (getNumLineSensors (lineSensors t)) - 1) * 1000 div 2)"
proof -
  let ?m = "sint (getSensorValueMax (lineSensors t))"
  from assms have "PidCalculate setpoint processValue \<in> set (snd (dispatch K t (readLine (lineSensors t)) s))"
    by (auto simp: snd_process observationCheck_def split: if_splits)
  then have eq: "setpoint = narrow16 (?m * 2)" "processValue = readLine (lineSensors t)"
    using calc_dispatch by blast+
  have "sint (narrow16 (?m * 2)) = ?m * 2"
    if "?m * 2 = (uint (getNumLineSensors (lineSensors t)) - 1) * 1000 div 2" "?m \<le> 16383"
  proof (rule sint_narrow16)
    have "0 \<le> uint (getNumLineSensors (lineSensors t))" by simp
    then have "- 500 \<le> (uint (getNumLineSensors (lineSensors t)) - 1) * 1000 div 2" by simp
    with that show "- 32768 \<le> ?m * 2" by simp
    from that show "?m * 2 \<le> 32767" by simp
  qed
  with eq show ?thesis by simp
qed

theorem pid_setpoint_witness:
  "PidCalculate 2000 1800 \<in> set (snd (process exampleConstants
       (exampleTick (exampleSensors 1800 (Some darkFrame)) False 100)
       (exampleState TRACK_STATUS_ON_TRACK 0)))
   \<and> sint (1000 :: int16_t) * 2 = (uint (5 :: uint8_t) - 1) * 1000 div 2
   \<and> sint (1000 :: int16_t) \<le> 16383
   \<and> sint (2000 :: int16_t) = (uint (5 :: uint8_t) - 1) * 1000 div 2"
  using pid_setpoint [of 2000 1800 exampleConstants
      "exampleTick (exampleSensors 1800 (Some darkFrame)) False 100"
      "exampleState TRACK_STATUS_ON_TRACK 0"]
  by (simp add: method_defs example_defs)

text \<open>
  With 7 sensors and a channel maximum of 1000 the position range is 0 to 6000 and its
  midpoint 3000; the setpoint passed is 2000.
\<close>

theorem pid_setpoint_7_sensors:
  "PidCalculate 2000 1800 \<in> set (snd (process exampleConstants
       (exampleTick (exampleSensors 1800 (Some darkFrame)\<lparr>getNumLineSensors := 7\<rparr>) False 100)
       (exampleState TRACK_STATUS_ON_TRACK 0)))
   \<and> sint (2000 :: int16_t) \<noteq> (uint (7 :: uint8_t) - 1) * 1000 div 2"
  by (simp add: method_defs example_defs)

subsection \<open>A null sensor array\<close>

lemma processOnTrack_None: "processOnTrack K t position None s = (s, [])"
  by (simp add: processOnTrack_def)

lemma processTrackLost_None: "processTrackLost K t position None s = (s, [])"
  by (simp add: processTrackLost_def)

text \<open>
  Claim C10. When the pointer to the sensor values is null, \<^verbatim>\<open>processOnTrack\<close> and
  \<^verbatim>\<open>processTrackLost\<close> return the state as it was (line status, track status, debounce
  counter) and send no command: none to the PID controller and none to the drive, so the
  drive keeps the speeds it held. In a tick on track or lost the switch therefore does
  nothing; neither the recovery check nor the distance check is made. When the
  observation timer has not elapsed either, all the tick does is feed the filter.
\<close>

theorem null_sensor_array:
  "processOnTrack K t position None s = (s, [])
   \<and> processTrackLost K t position None s = (s, [])
   \<and> (getSensorValues (lineSensors t) = None \<longrightarrow>
        m_trackStatus s = TRACK_STATUS_ON_TRACK \<or> m_trackStatus s = TRACK_STATUS_LOST \<longrightarrow>
          dispatch K t (readLine (lineSensors t)) s = (s, [])
          \<and> commandedSpeeds (snd (dispatch K t (readLine (lineSensors t)) s)) d = d
          \<and> filter isPidCommand (snd (process K t s)) = []
          \<and> (\<not> observationTimerIsTimeout t \<longrightarrow>
                process K t s = (s, [PosMovAvgWrite (readLine (lineSensors t))])))"
  by (auto simp: processOnTrack_None processTrackLost_None dispatch_def process_def observationCheck_def)

subsection \<open>A tick while the track is lost\<close>

lemma dispatch_Lost:
  "m_trackStatus s = TRACK_STATUS_LOST \<Longrightarrow>
     dispatch K t position s = processTrackLost K t position (getSensorValues (lineSensors t)) s"
  by (simp add: dispatch_def)

lemma process_no_timeout:
  "\<not> observationTimerIsTimeout t \<Longrightarrow>
     process K t s = (fst (dispatch K t (readLine (lineSensors t)) s),
                      PosMovAvgWrite (readLine (lineSensors t)) # snd (dispatch K t (readLine (lineSensors t)) s))"
  by (simp add: process_def observationCheck_def Let_def split_beta)

text \<open>
  Claim C8. In a tick that starts with the track lost and a sensor array that is not
  null, the switch of \<^verbatim>\<open>process\<close> runs \<^verbatim>\<open>processTrackLost\<close>: when the gap test on the
  position just read is false, the track status becomes on track and no drive command is
  sent; otherwise, when the mileage exceeds \<^verbatim>\<open>MAX_DISTANCE\<close>, the drive is stopped, the
  alarm is played and the track status becomes finished; otherwise both wheels are
  commanded to the top speed and the state is unchanged. Unless the observation timer has
  elapsed, this is the whole tick after the write to the filter.
\<close>

theorem track_lost_tick:
  assumes "m_trackStatus s = TRACK_STATUS_LOST" and "getSensorValues (lineSensors t) = Some vs"
  shows "(\<not> isTrackGapDetected (lineSensors t) (readLine (lineSensors t)) \<longrightarrow>
            m_trackStatus (fst (dispatch K t (readLine (lineSensors t)) s)) = TRACK_STATUS_ON_TRACK
            \<and> filter isDriveCommand (snd (dispatch K t (readLine (lineSensors t)) s)) = [])
       \<and> (isTrackGapDetected (lineSensors t) (readLine (lineSensors t)) \<and> MAX_DISTANCE K < mileageCenter t \<longrightarrow>
            dispatch K t (readLine (lineSensors t)) s
              = (s\<lparr>m_trackStatus := TRACK_STATUS_FINISHED\<rparr>, [SetLinearSpeed 0 0, PlayAlarm]))
       \<and> (isTrackGapDetected (lineSensors t) (readLine (lineSensors t)) \<and> \<not> MAX_DISTANCE K < mileageCenter t \<longrightarrow>
            dispatch K t (readLine (lineSensors t)) s
              = (s, [SetLinearSpeed (m_topSpeed s) (m_topSpeed s)]))
       \<and> (\<not> observationTimerIsTimeout t \<longrightarrow>
            process K t s = (fst (dispatch K t (readLine (lineSensors t)) s),
                             PosMovAvgWrite (readLine (lineSensors t)) # snd (dispatch K t (readLine (lineSensors t)) s)))"
  using assms by (simp add: dispatch_Lost processTrackLost_def process_no_timeout)

subsection \<open>Resynchronisation of the PID controller\<close>

lemma resync_processOnTrack: "PidResync \<notin> set (snd (processOnTrack K t position vals s))"
  by (auto simp: processOnTrack_def adaptDriving_def Let_def split: option.splits if_splits prod.splits)

text \<open>
  Claim C7. In every tick, from every state, \<^verbatim>\<open>resync\<close> is called once when the tick
  starts with the track lost and the switch of \<^verbatim>\<open>process\<close> sets the track status to on
  track, and not at all otherwise. That transition happens exactly when the tick starts
  with the track lost, the sensor array is not null and the gap test on the position just
  read is false.
\<close>

theorem resync_on_recovery:
  "count_list (snd (process K t s)) PidResync =
     (if m_trackStatus s = TRACK_STATUS_LOST
         \<and> m_trackStatus (fst (dispatch K t (readLine (lineSensors t)) s)) = TRACK_STATUS_ON_TRACK
      then 1 else 0)
   \<and> (m_trackStatus s = TRACK_STATUS_LOST
         \<and> m_trackStatus (fst (dispatch K t (readLine (lineSensors t)) s)) = TRACK_STATUS_ON_TRACK
       \<longleftrightarrow> m_trackStatus s = TRACK_STATUS_LOST \<and> getSensorValues (lineSensors t) \<noteq> None
           \<and> \<not> isTrackGapDetected (lineSensors t) (readLine (lineSensors t)))"
proof (cases "m_trackStatus s")
  case TRACK_STATUS_ON_TRACK
  then show ?thesis
    using resync_processOnTrack [of K t "readLine (lineSensors t)" "getSensorValues (lineSensors t)" s]
    by (simp add: snd_process dispatch_def observationCheck_def)
next
  case TRACK_STATUS_LOST
  then show ?thesis
    by (cases "getSensorValues (lineSensors t)")
       (simp_all add: snd_process dispatch_def observationCheck_def processTrackLost_def)
next
  case TRACK_STATUS_FINISHED
  then show ?thesis by (simp add: snd_process dispatch_def observationCheck_def)
next
  case TRACK_STATUS_OTHER
  then show ?thesis by (simp add: snd_process dispatch_def observationCheck_def)
qed

subsection \<open>The observation timer\<close>

lemma commandedSpeeds_append:
  "commandedSpeeds (xs @ ys) d = commandedSpeeds ys (commandedSpeeds xs d)"
  by (induction xs d rule: commandedSpeeds.induct) simp_all

lemma processOnTrack_finished_stop:
  assumes "m_trackStatus s \<noteq> TRACK_STATUS_FINISHED"
    and "m_trackStatus (fst (processOnTrack K t position vals s)) = TRACK_STATUS_FINISHED"
  shows "commandedSpeeds (snd (processOnTrack K t position vals s)) d = (0, 0)"
  using assms
  by (cases vals)
     (auto simp: processOnTrack_def Let_def split_beta isStartEndLineDetected_fields fst_adaptDriving
       split: if_splits)

lemma processTrackLost_finished_stop:
  assumes "m_trackStatus s \<noteq> TRACK_STATUS_FINISHED"
    and "m_trackStatus (fst (processTrackLost K t position vals s)) = TRACK_STATUS_FINISHED"
  shows "commandedSpeeds (snd (processTrackLost K t position vals s)) d = (0, 0)"
  using assms by (auto simp: processTrackLost_def split: option.splits if_splits)

lemma dispatch_finished_stop:
  assumes "m_trackStatus s \<noteq> TRACK_STATUS_FINISHED"
    and "m_trackStatus (fst (dispatch K t position s)) = TRACK_STATUS_FINISHED"
  shows "commandedSpeeds (snd (dispatch K t position s)) d = (0, 0)"
  using assms processOnTrack_finished_stop [of s K t position _ d]
    processTrackLost_finished_stop [of s K t position _ d]
  by (cases "m_trackStatus s") (auto simp: dispatch_def)

text \<open>
  Claim C1, as the code has it. The observation timer is checked at the end of
  \<^verbatim>\<open>process\<close>, after the switch on the track status. In a tick that starts with a track
  status other than finished and in which the timer has elapsed, the track status is
  finished when the tick ends and the last drive command of the tick is the stop,
  whatever the drive held before. When the switch has not itself finished the lap, the
  events of the tick are the write to the filter, then everything the switch did, then
  the stop of the drive and then the alarm.
\<close>

theorem observation_cutoff:
  assumes "observationTimerIsTimeout t" and "m_trackStatus s \<noteq> TRACK_STATUS_FINISHED"
  shows "m_trackStatus (fst (process K t s)) = TRACK_STATUS_FINISHED
       \<and> commandedSpeeds (snd (process K t s)) d = (0, 0)
       \<and> (m_trackStatus (fst (dispatch K t (readLine (lineSensors t)) s)) \<noteq> TRACK_STATUS_FINISHED \<longrightarrow>
            snd (process K t s) =
              PosMovAvgWrite (readLine (lineSensors t)) # snd (dispatch K t (readLine (lineSensors t)) s)
                @ [SetLinearSpeed 0 0, PlayAlarm])"
proof (cases "m_trackStatus (fst (dispatch K t (readLine (lineSensors t)) s)) = TRACK_STATUS_FINISHED")
  case True
  then show ?thesis
    using dispatch_finished_stop [OF assms(2) True]
    by (simp add: fst_process snd_process observationCheck_def)
next
  case False
  then show ?thesis
    using assms(1)
    by (simp add: fst_process snd_process observationCheck_def commandedSpeeds_append)
qed

subsection \<open>The line status\<close>

lemma lineRank_processOnTrack:
  "lineRank (m_lineStatus s) \<le> lineRank (m_lineStatus (fst (processOnTrack K t position vals s)))"
  by (cases vals)
     (auto simp: processOnTrack_def Let_def split_beta isStartEndLineDetected_fields fst_adaptDriving
       lineRank_def split: LineStatus.splits)

lemma lineStatus_processTrackLost:
  "m_lineStatus (fst (processTrackLost K t position vals s)) = m_lineStatus s"
  by (cases vals) (auto simp: processTrackLost_def)

lemma lineStatus_observationCheck: "m_lineStatus (fst (observationCheck t s)) = m_lineStatus s"
  by (simp add: observationCheck_def)

lemma lineRank_dispatch:
  "lineRank (m_lineStatus s) \<le> lineRank (m_lineStatus (fst (dispatch K t position s)))"
  by (cases "m_trackStatus s")
     (simp_all add: dispatch_def lineRank_processOnTrack lineStatus_processTrackLost)

lemma lineRank_process:
  "lineRank (m_lineStatus s) \<le> lineRank (m_lineStatus (fst (process K t s)))"
  by (simp add: fst_process lineStatus_observationCheck lineRank_dispatch)

lemma lineRank_processAll:
  "lineRank (m_lineStatus s) \<le> lineRank (m_lineStatus (fst (processAll K ts s)))"
proof (induction ts arbitrary: s)
  case Nil
  show ?case by simp
next
  case (Cons t ts)
  have "lineRank (m_lineStatus s) \<le> lineRank (m_lineStatus (fst (process K t s)))"
    by (rule lineRank_process)
  also have "\<dots> \<le> lineRank (m_lineStatus (fst (processAll K ts (fst (process K t s)))))"
    by (rule Cons.IH)
  finally show ?case by (simp add: split_beta)
qed

lemma fst_processAll_append:
  "fst (processAll K (ts @ us) s) = fst (processAll K us (fst (processAll K ts s)))"
  by (induction ts arbitrary: s) (simp_all add: split_beta)

text \<open>
  Claim C9. With the line status ranked in the order find start line, start line
  detected, find end line, no tick lowers the rank, from any state and on any input; so
  along any sequence of ticks the line status after more ticks is never earlier than
  after fewer.
\<close>

theorem lineStatus_forward:
  "lineRank (m_lineStatus s) \<le> lineRank (m_lineStatus (fst (process K t s)))
   \<and> lineRank (m_lineStatus (fst (processAll K ts s)))
       \<le> lineRank (m_lineStatus (fst (processAll K (ts @ us) s)))"
  by (simp add: lineRank_process fst_processAll_append lineRank_processAll)

theorem lineStatus_forward_witness:
  "lineRank (m_lineStatus (exampleState TRACK_STATUS_ON_TRACK 2))
     \<le> lineRank (m_lineStatus (fst (process exampleConstants
          (exampleTick (exampleSensors 2000 (Some brightFrame)) False 0)
          (exampleState TRACK_STATUS_ON_TRACK 2))))
   \<and> m_lineStatus (fst (process exampleConstants
          (exampleTick (exampleSensors 2000 (Some brightFrame)) False 0)
          (exampleState TRACK_STATUS_ON_TRACK 2))) = LINE_STATUS_START_LINE_DETECTED"
  using lineStatus_forward [of "exampleState TRACK_STATUS_ON_TRACK 2" exampleConstants
      "exampleTick (exampleSensors 2000 (Some brightFrame)) False 0" "[]" "[]"]
  by (simp add: method_defs example_defs)

subsection \<open>Example ticks\<close>

theorem null_sensor_array_witness:
  "getSensorValues (lineSensors (exampleTick (exampleSensors 0 None) False 100)) = None
   \<and> (m_trackStatus (exampleState TRACK_STATUS_LOST 2) = TRACK_STATUS_ON_TRACK
        \<or> m_trackStatus (exampleState TRACK_STATUS_LOST 2) = TRACK_STATUS_LOST)
   \<and> \<not> observationTimerIsTimeout (exampleTick (exampleSensors 0 None) False 100)
   \<and> process exampleConstants (exampleTick (exampleSensors 0 None) False 100) (exampleState TRACK_STATUS_LOST 2)
       = (exampleState TRACK_STATUS_LOST 2, [PosMovAvgWrite 0])
   \<and> commandedSpeeds (snd (dispatch exampleConstants (exampleTick (exampleSensors 0 None) False 100) 0
         (exampleState TRACK_STATUS_LOST 2))) (2000, 2000) = (2000, 2000)"
  using null_sensor_array [of exampleConstants "exampleTick (exampleSensors 0 None) False 100" 0
      "exampleState TRACK_STATUS_LOST 2" "(2000, 2000)"]
  by (simp add: method_defs example_defs)

theorem track_lost_tick_witness:
  "m_trackStatus (exampleState TRACK_STATUS_LOST 0) = TRACK_STATUS_LOST
   \<and> getSensorValues (lineSensors (exampleTick (exampleSensors 0 (Some darkFrame)) False 100\<lparr>mileageCenter := 201\<rparr>)) = Some darkFrame
   \<and> isTrackGapDetected (lineSensors (exampleTick (exampleSensors 0 (Some darkFrame)) False 100\<lparr>mileageCenter := 201\<rparr>)) 0
   \<and> MAX_DISTANCE exampleConstants < mileageCenter (exampleTick (exampleSensors 0 (Some darkFrame)) False 100\<lparr>mileageCenter := 201\<rparr>)
   \<and> \<not> observationTimerIsTimeout (exampleTick (exampleSensors 0 (Some darkFrame)) False 100\<lparr>mileageCenter := 201\<rparr>)
   \<and> process exampleConstants (exampleTick (exampleSensors 0 (Some darkFrame)) False 100\<lparr>mileageCenter := 201\<rparr>)
        (exampleState TRACK_STATUS_LOST 0)
      = (exampleState TRACK_STATUS_FINISHED 0, [PosMovAvgWrite 0, SetLinearSpeed 0 0, PlayAlarm])"
  using track_lost_tick [of "exampleState TRACK_STATUS_LOST 0"
      "exampleTick (exampleSensors 0 (Some darkFrame)) False 100\<lparr>mileageCenter := 201\<rparr>" darkFrame exampleConstants]
  by (simp add: method_defs example_defs)

theorem resync_on_recovery_witness:
  "count_list (snd (process exampleConstants (exampleTick (exampleSensors 1800 (Some darkFrame)) False 100)
       (exampleState TRACK_STATUS_LOST 0))) PidResync = 1
   \<and> m_trackStatus (fst (process exampleConstants (exampleTick (exampleSensors 1800 (Some darkFrame)) False 100)
       (exampleState TRACK_STATUS_LOST 0))) = TRACK_STATUS_ON_TRACK
   \<and> count_list (snd (process exampleConstants (exampleTick (exampleSensors 0 (Some darkFrame)) False 100)
       (exampleState TRACK_STATUS_LOST 0))) PidResync = 0"
  using resync_on_recovery [of exampleConstants "exampleTick (exampleSensors 1800 (Some darkFrame)) False 100"
      "exampleState TRACK_STATUS_LOST 0"]
    resync_on_recovery [of exampleConstants "exampleTick (exampleSensors 0 (Some darkFrame)) False 100"
      "exampleState TRACK_STATUS_LOST 0"]
  by (simp add: method_defs example_defs)

theorem observation_cutoff_witness:
  "observationTimerIsTimeout (exampleTick (exampleSensors 1800 (Some darkFrame)) True 100)
   \<and> m_trackStatus (exampleState TRACK_STATUS_ON_TRACK 0) \<noteq> TRACK_STATUS_FINISHED
   \<and> m_trackStatus (fst (process exampleConstants (exampleTick (exampleSensors 1800 (Some darkFrame)) True 100)
            (exampleState TRACK_STATUS_ON_TRACK 0))) = TRACK_STATUS_FINISHED
   \<and> commandedSpeeds (snd (process exampleConstants (exampleTick (exampleSensors 1800 (Some darkFrame)) True 100)
            (exampleState TRACK_STATUS_ON_TRACK 0))) (1500, 1500) = (0, 0)"
  using observation_cutoff [of "exampleTick (exampleSensors 1800 (Some darkFrame)) True 100"
      "exampleState TRACK_STATUS_ON_TRACK 0" exampleConstants "(1500, 1500)"]
  by (simp add: method_defs example_defs)

text \<open>
  A tick on track in which both the PID interval and the observation timer have elapsed:
  the filter is written, the PID controller is called and the wheels are commanded to
  1900 and 2000 before the drive is stopped. The stop is neither the first action of the
  tick nor its only drive command.
\<close>

theorem observation_cutoff_after_steering:
  "observationTimerIsTimeout (exampleTick (exampleSensors 1800 (Some darkFrame)) True 100)
   \<and> m_trackStatus (exampleState TRACK_STATUS_ON_TRACK 0) \<noteq> TRACK_STATUS_FINISHED
   \<and> snd (process exampleConstants (exampleTick (exampleSensors 1800 (Some darkFrame)) True 100)
            (exampleState TRACK_STATUS_ON_TRACK 0))
       = [PosMovAvgWrite 1800, PidCalculate 2000 1800, SetLinearSpeed 1900 2000,
          PidProcessTimeStart 10, SetLinearSpeed 0 0, PlayAlarm]
   \<and> filter isDriveCommand (snd (process exampleConstants
            (exampleTick (exampleSensors 1800 (Some darkFrame)) True 100)
            (exampleState TRACK_STATUS_ON_TRACK 0)))
       = [SetLinearSpeed 1900 2000, SetLinearSpeed 0 0]"
  by (simp add: method_defs example_defs)

subsection \<open>Entry\<close>

lemma debounce_one: "((3 :: uint8_t) \<le> 1) = False"
  by (simp add: word_le_nat_alt)

lemma entry_post_state:
  "m_lineStatus (fst (entry parSet maxSpeed K s)) = LINE_STATUS_FIND_START_LINE
   \<and> m_trackStatus (fst (entry parSet maxSpeed K s)) = TRACK_STATUS_ON_TRACK
   \<and> m_topSpeed (fst (entry parSet maxSpeed K s)) = topSpeed parSet
   \<and> m_startEndLineDebounce (fst (entry parSet maxSpeed K s)) = m_startEndLineDebounce s
   \<and> take 3 (snd (entry parSet maxSpeed K s))
       = [ObservationTimerStart (OBSERVATION_DURATION K), PidProcessTimeStart 0, PosMovAvgClear]"
  by (simp add: entry_def)

text \<open>
  Claim C2 at a state the code reaches. \<^verbatim>\<open>entry\<close> arms both timers, clears the filter
  and sets the line status and the track status, but it does not write the debounce
  counter. After a lap that ended on the end line the counter is 3, and it is still 3
  after the next \<^verbatim>\<open>entry\<close>. The first crossing seen in that attempt is then reported in
  its first tick; when it drops out for one tick and comes back, the same line is taken
  for the start line and then for the end line, and the lap is finished after five
  ticks. From a counter of 0 the same five ticks end with the start line detected.
\<close>

theorem entry_keeps_debounce:
  "m_trackStatus (fst (processAll exampleConstants lapTicks
        (fst (entry exampleParameterSet 4000 exampleConstants (exampleState TRACK_STATUS_OTHER 0)))))
     = TRACK_STATUS_FINISHED
   \<and> m_startEndLineDebounce (fst (processAll exampleConstants lapTicks
        (fst (entry exampleParameterSet 4000 exampleConstants (exampleState TRACK_STATUS_OTHER 0))))) = 3
   \<and> m_startEndLineDebounce (fst (entry exampleParameterSet 4000 exampleConstants
        (fst (processAll exampleConstants lapTicks
          (fst (entry exampleParameterSet 4000 exampleConstants (exampleState TRACK_STATUS_OTHER 0))))))) = 3
   \<and> fst (entry exampleParameterSet 4000 exampleConstants (exampleState TRACK_STATUS_FINISHED 3))
       = exampleState TRACK_STATUS_ON_TRACK 3
   \<and> fst (processAll exampleConstants restartTicks (exampleState TRACK_STATUS_ON_TRACK 3))
       = (exampleState TRACK_STATUS_FINISHED 3)\<lparr>m_lineStatus := LINE_STATUS_FIND_END_LINE\<rparr>
   \<and> fst (processAll exampleConstants restartTicks (exampleState TRACK_STATUS_ON_TRACK 0))
       = (exampleState TRACK_STATUS_ON_TRACK 3)\<lparr>m_lineStatus := LINE_STATUS_START_LINE_DETECTED\<rparr>"
  using entry_post_state [of exampleParameterSet 4000 exampleConstants
      "fst (processAll exampleConstants lapTicks
         (fst (entry exampleParameterSet 4000 exampleConstants (exampleState TRACK_STATUS_OTHER 0))))"]
  by (simp add: method_defs example_defs entry_def exampleParameterSet_def lapTicks_def restartTicks_def
      debounce_one)

subsection \<open>The start/end line detector\<close>

lemma uint_narrow16: "0 \<le> i \<Longrightarrow> i < 65536 \<Longrightarrow> uint (narrow16 i :: 16 word) = i"
  by (simp add: narrow16_def uint_word_of_int take_bit_int_eq_self)

lemma five_channels:
  assumes "length vs = 5"
  obtains a b c d e where "vs = [a, b, c, d, e]"
proof -
  from assms obtain a b c d e r where "vs = a # b # c # d # e # r"
    by (auto simp: numeral_eq_Suc length_Suc_conv)
  with assms show ?thesis using that by simp
qed

lemma debounce_count: "(3 \<le> (if 3 > x then x + 1 else x)) = (2 \<le> x)" for x :: "8 word"
proof (cases "x < 3")
  case True
  then have small: "unat x < 3" by (simp add: word_less_nat_alt)
  then have "unat (x + 1) = unat x + 1" by (simp add: unat_word_ariths)
  with True small show ?thesis by (simp add: word_le_nat_alt)
next
  case False
  then have "3 \<le> unat x" by (simp add: word_less_nat_alt)
  with False show ?thesis by (simp add: word_le_nat_alt)
qed

lemma debounce_next_pos: "(1 \<le> (if x < 3 then x + 1 else x)) = True" for x :: "8 word"
proof (cases "x < 3")
  case True
  then have small: "unat x < 3" by (simp add: word_less_nat_alt)
  then have "unat (x + 1) = unat x + 1" by (simp add: unat_word_ariths)
  with True show ?thesis by (simp add: word_le_nat_alt)
next
  case False
  then have "3 \<le> unat x" by (simp add: word_less_nat_alt)
  with False show ?thesis by (simp add: word_le_nat_alt)
qed

lemma debounce_next_two: "(2 \<le> (if x < 3 then x + 1 else x)) = (1 \<le> x)" for x :: "8 word"
proof (cases "x < 3")
  case True
  then have small: "unat x < 3" by (simp add: word_less_nat_alt)
  then have "unat (x + 1) = unat x + 1" by (simp add: unat_word_ariths)
  with True small show ?thesis by (simp add: word_le_nat_alt)
next
  case False
  then have "3 \<le> unat x" by (simp add: word_less_nat_alt)
  with False show ?thesis by (simp add: word_le_nat_alt)
qed

text \<open>
  On five channels the condition the code tests is the crossing of the specification:
  the sum of three \<^verbatim>\<open>uint16_t\<close> values is formed in \<^verbatim>\<open>int\<close>, and a third of it fits
  \<^verbatim>\<open>uint16_t\<close> again.
\<close>

lemma isStartEndLineDetected_step:
  assumes "length vs = 5"
  shows "isStartEndLineDetected vs s =
     (if crossingPresent vs
      then (2 \<le> m_startEndLineDebounce s,
            s\<lparr>m_startEndLineDebounce :=
                 (if m_startEndLineDebounce s < 3 then m_startEndLineDebounce s + 1
                  else m_startEndLineDebounce s)\<rparr>)
      else (False, s\<lparr>m_startEndLineDebounce := 0\<rparr>))"
proof -
  from assms obtain a b c d e where vs: "vs = [a, b, c, d, e]" by (rule five_channels)
  let ?avg = "(uint b + uint c + uint d) div 3"
  have "0 \<le> ?avg" by (simp add: pos_imp_zdiv_nonneg_iff)
  moreover have "?avg < 65536"
    using uint_lt2p [of b] uint_lt2p [of c] uint_lt2p [of d] by simp
  ultimately have avg: "uint (narrow16 ?avg) = ?avg" by (rule uint_narrow16)
  have cond: "(200 \<le> a \<and> 200 \<le> narrow16 ?avg \<and> 200 \<le> e) = crossingPresent vs"
    by (auto simp: vs crossingPresent_def word_le_def avg)
  show ?thesis
    unfolding isStartEndLineDetected_def Let_def using cond debounce_count
    by (simp add: vs)
qed

lemma detectAll_append:
  "detectAll (fs @ gs) s =
     (fst (detectAll fs s) @ fst (detectAll gs (snd (detectAll fs s))),
      snd (detectAll gs (snd (detectAll fs s))))"
  by (induction fs arbitrary: s) (simp_all add: split_beta)

lemma length_detectAll: "length (fst (detectAll fs s)) = length fs"
  by (induction fs arbitrary: s) (simp_all add: split_beta)

text \<open>The report of tick \<open>k\<close> is the report of the detector in the state the ticks before left.\<close>

lemma detectAll_nth:
  assumes "k < length fs"
  shows "fst (detectAll fs s) ! k = fst (isStartEndLineDetected (fs ! k) (snd (detectAll (take k fs) s)))"
proof -
  have "fs = take k fs @ fs ! k # drop (Suc k) fs"
    using assms by (simp add: id_take_nth_drop)
  then have "fst (detectAll fs s) = fst (detectAll (take k fs @ fs ! k # drop (Suc k) fs) s)"
    by simp
  also have "\<dots> ! k = fst (isStartEndLineDetected (fs ! k) (snd (detectAll (take k fs) s)))"
    using assms by (simp add: detectAll_append nth_append length_detectAll split_beta)
  finally show ?thesis .
qed

lemma detectAll_take_Suc:
  assumes "k < length fs"
  shows "snd (detectAll (take (Suc k) fs) s)
           = snd (isStartEndLineDetected (fs ! k) (snd (detectAll (take k fs) s)))"
  using assms by (simp add: take_Suc_conv_app_nth detectAll_append split_beta)

lemma detectAll_report:
  assumes "m_startEndLineDebounce s = 0" and "\<forall>f \<in> set fs. length f = 5" and k: "k < length fs"
  shows "fst (detectAll fs s) ! k \<longleftrightarrow>
           2 \<le> k \<and> crossingPresent (fs ! (k - 2)) \<and> crossingPresent (fs ! (k - 1)) \<and> crossingPresent (fs ! k)"
proof -
  let ?c = "\<lambda>j. m_startEndLineDebounce (snd (detectAll (take j fs) s))"
  have five: "length (fs ! j) = 5" if "j < length fs" for j
    using assms(2) that by simp
  have c0: "?c 0 = 0" using assms(1) by simp
  have cS: "?c (Suc j) = (if crossingPresent (fs ! j) then (if ?c j < 3 then ?c j + 1 else ?c j) else 0)"
    if "j < length fs" for j
    using that five [OF that] by (simp add: detectAll_take_Suc isStartEndLineDetected_step)
  have out: "fst (detectAll fs s) ! k \<longleftrightarrow> crossingPresent (fs ! k) \<and> 2 \<le> ?c k"
    using k five [OF k] by (simp add: detectAll_nth isStartEndLineDetected_step)
  show ?thesis
  proof (cases k)
    case 0
    then show ?thesis using out c0 by simp
  next
    case (Suc j)
    note kj = Suc
    then have j: "j < length fs" using k by simp
    have two: "2 \<le> ?c k \<longleftrightarrow> crossingPresent (fs ! j) \<and> 1 \<le> ?c j"
      using cS [OF j] kj by (simp add: debounce_next_two)
    show ?thesis
    proof (cases j)
      case 0
      then have "\<not> 1 \<le> ?c j" using c0 by simp
      then show ?thesis using out kj 0 two by simp
    next
      case (Suc i)
      then have i: "i < length fs" using j by simp
      have "1 \<le> ?c j \<longleftrightarrow> crossingPresent (fs ! i)"
        using cS [OF i] Suc by (simp add: debounce_next_pos)
      then show ?thesis using out kj Suc two by auto
    qed
  qed
qed

text \<open>
  Claim C4, as the code has it. The detector reads channels 0 to 4 of the array it is
  given: channels 0 and 4 as the outermost ones and channels 1 to 3 as the interior. For
  arrays of five channels these are the outermost and the interior channels of the
  array. The detector is run over the five-channel sensor arrays of successive ticks,
  from a debounce counter of 0. It reports a crossing in a tick exactly when the two
  outermost channels and the average of the interior channels are at or above 200 in
  that tick and in the two ticks before it. So a run of crossings is reported from its
  third tick on, for as long as it lasts; two crossings followed by a tick without one
  are never reported; and a tick without a crossing reports nothing and sets the counter
  to 0, whatever the counter was.
\<close>

theorem start_end_line_debounce:
  assumes "m_startEndLineDebounce s = 0" and "\<forall>f \<in> set fs. length f = 5"
  shows "(\<forall>k < length fs. fst (detectAll fs s) ! k \<longleftrightarrow>
            2 \<le> k \<and> crossingPresent (fs ! (k - 2)) \<and> crossingPresent (fs ! (k - 1))
              \<and> crossingPresent (fs ! k))
       \<and> ((\<forall>f \<in> set fs. crossingPresent f) \<longrightarrow>
            fst (detectAll fs s) = map (\<lambda>k. 2 \<le> k) [0..<length fs])
       \<and> (length fs = 3 \<and> crossingPresent (fs ! 0) \<and> crossingPresent (fs ! 1) \<and> \<not> crossingPresent (fs ! 2) \<longrightarrow>
            fst (detectAll fs s) = [False, False, False])
       \<and> (\<forall>f \<in> set fs. \<forall>s'. \<not> crossingPresent f \<longrightarrow>
            isStartEndLineDetected f s' = (False, s'\<lparr>m_startEndLineDebounce := 0\<rparr>))"
proof (intro conjI allI impI ballI)
  fix k assume "k < length fs"
  then show "fst (detectAll fs s) ! k \<longleftrightarrow>
      2 \<le> k \<and> crossingPresent (fs ! (k - 2)) \<and> crossingPresent (fs ! (k - 1)) \<and> crossingPresent (fs ! k)"
    using assms by (rule detectAll_report [rotated 2])
next
  assume all: "\<forall>f \<in> set fs. crossingPresent f"
  show "fst (detectAll fs s) = map (\<lambda>k. 2 \<le> k) [0..<length fs]"
  proof (rule nth_equalityI)
    show "length (fst (detectAll fs s)) = length (map (\<lambda>k. 2 \<le> k) [0..<length fs])"
      by (simp add: length_detectAll)
  next
    fix i assume "i < length (fst (detectAll fs s))"
    then have i: "i < length fs" by (simp add: length_detectAll)
    then have "crossingPresent (fs ! (i - 2))" "crossingPresent (fs ! (i - 1))" "crossingPresent (fs ! i)"
      using all by simp_all
    then show "fst (detectAll fs s) ! i = map (\<lambda>k. 2 \<le> k) [0..<length fs] ! i"
      using i detectAll_report [OF assms i] by simp
  qed
next
  assume three: "length fs = 3 \<and> crossingPresent (fs ! 0) \<and> crossingPresent (fs ! 1) \<and> \<not> crossingPresent (fs ! 2)"
  show "fst (detectAll fs s) = [False, False, False]"
  proof (rule nth_equalityI)
    show "length (fst (detectAll fs s)) = length [False, False, False]"
      using three by (simp add: length_detectAll)
  next
    fix i assume "i < length (fst (detectAll fs s))"
    then have i: "i < length fs" by (simp add: length_detectAll)
    then have "i = 0 \<or> i = 1 \<or> i = 2" using three by auto
    then have "\<not> fst (detectAll fs s) ! i"
      using detectAll_report [OF assms i] three by auto
    moreover have "[False, False, False] ! i = False"
      using \<open>i = 0 \<or> i = 1 \<or> i = 2\<close> by auto
    ultimately show "fst (detectAll fs s) ! i = [False, False, False] ! i" by simp
  qed
next
  fix f s' assume "f \<in> set fs" "\<not> crossingPresent f"
  then show "isStartEndLineDetected f s' = (False, s'\<lparr>m_startEndLineDebounce := 0\<rparr>)"
    using assms(2) by (simp add: isStartEndLineDetected_step)
qed

theorem start_end_line_debounce_witness:
  "m_startEndLineDebounce (exampleState TRACK_STATUS_ON_TRACK 0) = 0
   \<and> length brightFrame = 5 \<and> length darkFrame = 5
   \<and> crossingPresent brightFrame \<and> \<not> crossingPresent darkFrame
   \<and> fst (detectAll [brightFrame, brightFrame, brightFrame, brightFrame, darkFrame, brightFrame]
        (exampleState TRACK_STATUS_ON_TRACK 0)) ! 2
   \<and> \<not> fst (detectAll [brightFrame, brightFrame, brightFrame, brightFrame, darkFrame, brightFrame]
        (exampleState TRACK_STATUS_ON_TRACK 0)) ! 1
   \<and> \<not> fst (detectAll [brightFrame, brightFrame, brightFrame, brightFrame, darkFrame, brightFrame]
        (exampleState TRACK_STATUS_ON_TRACK 0)) ! 5"
proof -
  let ?fs = "[brightFrame, brightFrame, brightFrame, brightFrame, darkFrame, brightFrame]"
  let ?s = "exampleState TRACK_STATUS_ON_TRACK 0"
  have zero: "m_startEndLineDebounce ?s = 0" by (simp add: exampleState_def)
  have five: "\<forall>f \<in> set ?fs. length f = 5" by (simp add: darkFrame_def brightFrame_def)
  have bright: "crossingPresent brightFrame" by (simp add: crossingPresent_def brightFrame_def)
  have dark: "\<not> crossingPresent darkFrame" by (simp add: crossingPresent_def darkFrame_def)
  have "\<forall>k < length ?fs. fst (detectAll ?fs ?s) ! k \<longleftrightarrow>
      2 \<le> k \<and> crossingPresent (?fs ! (k - 2)) \<and> crossingPresent (?fs ! (k - 1)) \<and> crossingPresent (?fs ! k)"
    using start_end_line_debounce [OF zero five] by (rule conjunct1)
  then have report: "fst (detectAll ?fs ?s) ! k \<longleftrightarrow>
      2 \<le> k \<and> crossingPresent (?fs ! (k - 2)) \<and> crossingPresent (?fs ! (k - 1)) \<and> crossingPresent (?fs ! k)"
    if "k < 6" for k using that by simp
  have "fst (detectAll ?fs ?s) ! 2" using report [of 2] bright by simp
  moreover have "\<not> fst (detectAll ?fs ?s) ! 1" using report [of 1] by simp
  moreover have "\<not> fst (detectAll ?fs ?s) ! 5" using report [of 5] dark by simp
  ultimately show ?thesis using zero five bright dark by simp
qed

text \<open>
  On arrays of seven channels the detector still reads channels 0 to 4. Three ticks that
  are bright on those and dark on the outermost channel 6 are reported in the third
  tick, though the two outermost channels of the array are not both at or above 200.
\<close>

theorem start_end_line_seven_channels:
  "m_startEndLineDebounce (exampleState TRACK_STATUS_ON_TRACK 0) = 0
   \<and> length wideFrame = 7
   \<and> \<not> crossingPresent wideFrame
   \<and> fst (detectAll [wideFrame, wideFrame, wideFrame] (exampleState TRACK_STATUS_ON_TRACK 0))
       = [False, False, True]"
  by (simp add: isStartEndLineDetected_def narrow16_def crossingPresent_def exampleState_def
      wideFrame_def debounce_one)

end
